theory Spec2Isabelle
  imports Main
begin

section \<open>The lazily initialised API client (src/lib/apiClient.ts, as quoted in the guides)\<close>

text \<open>
  The class \<open>ApiClient\<close> is quoted in \<^verbatim>\<open>HYDRATION_FIXES_COMPLETE.md\<close> (lines 46-65) and,
  in an earlier revision, in \<^verbatim>\<open>HYDRATION_FIXES.md\<close> (lines 22-32):
  \<^verbatim>\<open>
  private initializeToken(): void {
    if (this.isInitialized) return;
    if (typeof window !== 'undefined' && typeof localStorage !== 'undefined') {
      try {
        this.token = localStorage.getItem('auth_token');
      } catch (error) {
        this.token = null; // Graceful fallback
      }
    }
    this.isInitialized = true;
  }
  \<close>
  The environment the method runs in is an explicit argument: whether \<open>window\<close> is
  defined, and what evaluating the global \<open>localStorage\<close> does. The global is undefined,
  or it is an accessor that throws (a browser in which storage is blocked raises a
  \<open>SecurityError\<close> on every access, also under \<open>typeof\<close>), or it yields the storage
  object, on which a read of the key \<open>auth_token\<close> throws or returns a string or
  \<open>null\<close>.
\<close>

datatype js_error = StorageError | ReferenceError | SecurityError | TypeError

datatype storage_read = Throws | Returns "string option"

datatype storage_global = GlobalUndefined | GlobalThrows | GlobalObject storage_read

record environment =
  window_defined :: bool
  localStorage :: storage_global

record ApiClient =
  baseURL :: string
  token :: "string option"
  isInitialized :: bool

text \<open>
  The running program: the client object together with the number of calls of
  \<open>localStorage.getItem\<close> made so far (the effect that the guard is there to bound).
\<close>

record runtime =
  obj :: ApiClient
  getItem_calls :: nat

definition set_token :: "string option \<Rightarrow> runtime \<Rightarrow> runtime" where
  "set_token v rt = rt\<lparr>obj := (obj rt)\<lparr>token := v\<rparr>\<rparr>"

definition set_isInitialized :: "bool \<Rightarrow> runtime \<Rightarrow> runtime" where
  "set_isInitialized b rt = rt\<lparr>obj := (obj rt)\<lparr>isInitialized := b\<rparr>\<rparr>"

text \<open>\<open>localStorage.getItem('auth_token')\<close>: counted, and it either throws or returns.\<close>

definition localStorage_getItem ::
  "storage_read \<Rightarrow> runtime \<Rightarrow> (js_error + string option) \<times> runtime" where
  "localStorage_getItem r rt =
     ((case r of Throws \<Rightarrow> Inl StorageError | Returns v \<Rightarrow> Inr v),
      rt\<lparr>getItem_calls := Suc (getItem_calls rt)\<rparr>)"

text \<open>
  \<open>initializeToken\<close> of \<^verbatim>\<open>HYDRATION_FIXES_COMPLETE.md\<close>, lines 52-64. The result is the
  exception that leaves the method (\<open>Inl\<close>) or its normal return, with the new state.
  The test of line 56 is outside the \<open>try\<close>: \<open>&&\<close> evaluates \<open>typeof localStorage\<close>
  only where \<open>window\<close> is defined, and an accessor that throws there leaves the method
  before line 63 sets the flag. Where \<open>window\<close> or \<open>localStorage\<close> is undefined,
  \<open>token\<close> is not assigned.
\<close>

definition initializeToken :: "environment \<Rightarrow> runtime \<Rightarrow> (js_error + unit) \<times> runtime" where
  "initializeToken env rt =
     (if isInitialized (obj rt) then (Inr (), rt)
      else if window_defined env then
        (case localStorage env of
           GlobalThrows \<Rightarrow> (Inl SecurityError, rt)
         | GlobalUndefined \<Rightarrow> (Inr (), set_isInitialized True rt)
         | GlobalObject r \<Rightarrow>
             (case localStorage_getItem r rt of
                (Inr v, rt') \<Rightarrow> (Inr (), set_isInitialized True (set_token v rt'))
              | (Inl e, rt') \<Rightarrow> (Inr (), set_isInitialized True (set_token None rt'))))
      else (Inr (), set_isInitialized True rt))"

text \<open>
  The earlier revision, \<^verbatim>\<open>HYDRATION_FIXES.md\<close>, lines 27-32:
  \<^verbatim>\<open>
  private initializeToken() {
    if (!this.isInitialized && typeof window !== 'undefined') {
      this.token = localStorage.getItem('auth_token');
      this.isInitialized = true;
    }
  }
  \<close>
  It has no \<open>try\<close>, does not test \<open>localStorage\<close>, and sets the flag only after a read.
\<close>

definition initializeToken_v1 :: "environment \<Rightarrow> runtime \<Rightarrow> (js_error + unit) \<times> runtime" where
  "initializeToken_v1 env rt =
     (if \<not> isInitialized (obj rt) \<and> window_defined env then
        (case localStorage env of
           GlobalUndefined \<Rightarrow> (Inl ReferenceError, rt)
         | GlobalThrows \<Rightarrow> (Inl SecurityError, rt)
         | GlobalObject r \<Rightarrow>
             (case localStorage_getItem r rt of
                (Inl e, rt') \<Rightarrow> (Inl e, rt')
              | (Inr v, rt') \<Rightarrow> (Inr (), set_isInitialized True (set_token v rt'))))
      else (Inr (), rt))"

text \<open>
  Modelled from the spec: the field declarations of \<open>ApiClient\<close> are not in the sources
  (the quoted constructor only assigns \<open>baseURL\<close>). Section 3 of the specification has
  ClientToken as an optional string created lazily and mutated only by the initializer,
  and the InitializedFlag as a one-shot boolean; a new object has no token and is not
  initialised.
\<close>

definition ApiClient_new :: "string \<Rightarrow> runtime" where
  "ApiClient_new url =
     \<lparr>obj = \<lparr>baseURL = url, token = None, isInitialized = False\<rparr>, getItem_calls = 0\<rparr>"

text \<open>
  Modelled from the spec: \<open>getToken\<close> is not in the sources. Section 4.2: "calls
  ensureInitialized() then returns ClientToken". It has no handler of its own described,
  so an exception that leaves the initializer leaves \<open>getToken\<close> too.
\<close>

definition getToken :: "environment \<Rightarrow> runtime \<Rightarrow> (js_error + string option) \<times> runtime" where
  "getToken env rt =
     (case initializeToken env rt of
        (Inl e, rt') \<Rightarrow> (Inl e, rt')
      | (Inr u, rt') \<Rightarrow> (Inr (token (obj rt')), rt'))"

text \<open>Sequential calls of the initializer, each in the environment it finds.\<close>

fun initializeToken_calls :: "environment list \<Rightarrow> runtime \<Rightarrow> runtime" where
  "initializeToken_calls [] rt = rt"
| "initializeToken_calls (env # envs) rt = initializeToken_calls envs (snd (initializeToken env rt))"

fun initializeToken_v1_calls :: "environment list \<Rightarrow> runtime \<Rightarrow> runtime" where
  "initializeToken_v1_calls [] rt = rt"
| "initializeToken_v1_calls (env # envs) rt =
     initializeToken_v1_calls envs (snd (initializeToken_v1 env rt))"

section \<open>The login page (src/app/auth/login/page.tsx)\<close>

text \<open>
  JavaScript truthiness of a \<open>string | null\<close> value, and \<open>a || d\<close> on such a value:
  \<open>null\<close>, \<open>undefined\<close> and the empty string are falsy.
\<close>

fun truthy :: "string option \<Rightarrow> bool" where
  "truthy None = False"
| "truthy (Some s) = (s \<noteq> [])"

fun or_else :: "string option \<Rightarrow> string \<Rightarrow> string" where
  "or_else None d = d"
| "or_else (Some s) d = (if s = [] then d else s)"

text \<open>The module \<open>@/lib/apiClient\<close>: its default export is a client object.\<close>

record Module =
  default_export :: ApiClient

record Credentials =
  cred_email :: "string option"
  cred_password :: "string option"

text \<open>What \<open>await apiClient.login(...)\<close> yields: a response object \<open>{success, message?}\<close>
  (the remote call contract of section 6), or a rejection. A promise can be rejected
  with any value: with \<open>null\<close> or \<open>undefined\<close>, on which reading \<open>.message\<close> throws a
  \<open>TypeError\<close>, or with another value (an \<open>Error\<close> object as a rule), whose
  \<open>message\<close> is a string or is missing.\<close>

record Response =
  success :: bool
  message :: "string option"

datatype rejection = Nullish | ErrorValue "string option"

datatype login_outcome = Resolved Response | Rejected rejection

datatype router_call = Replace string | Push string

text \<open>
  The state of the page: the module-level variable \<open>apiClient\<close> (line 11), the four
  \<open>useState\<close> cells (lines 15-21), the promises that are outstanding (dynamic imports
  and \<open>login\<close> calls), the calls made on the API client and on the router, and the
  exceptions that have left \<open>handleLogin\<close> (nothing awaits the promise it returns).
  \<open>formData\<close> is an object indexed by field name, since line 36 writes a computed key.
\<close>

record World =
  apiClient :: "ApiClient option"
  mounted :: bool
  formData :: "string \<rightharpoonup> string"
  loading :: bool
  error :: "string option"
  imports_pending :: nat
  logins_pending :: nat
  login_calls :: "Credentials list"
  router_calls :: "router_call list"
  uncaught :: "js_error list"

text \<open>A new component instance; the module variable is shared and keeps its value.\<close>

definition LoginPage_init :: "ApiClient option \<Rightarrow> World" where
  "LoginPage_init a =
     \<lparr>apiClient = a, mounted = False,
      formData = [''email'' \<mapsto> '''', ''password'' \<mapsto> ''''],
      loading = False, error = None,
      imports_pending = 0, logins_pending = 0, login_calls = [], router_calls = [],
      uncaught = []\<rparr>"

text \<open>Lines 24-30: the effect starts the dynamic import; its continuation runs later.\<close>

definition useEffect_mount :: "World \<Rightarrow> World" where
  "useEffect_mount w = w\<lparr>imports_pending := Suc (imports_pending w)\<rparr>"

definition import_then :: "Module \<Rightarrow> World \<Rightarrow> World" where
  "import_then m w = w\<lparr>apiClient := Some (default_export m), mounted := True\<rparr>"

text \<open>Lines 32-40.\<close>

definition handleInputChange :: "string \<Rightarrow> string \<Rightarrow> World \<Rightarrow> World" where
  "handleInputChange name v w =
     (let w1 = w\<lparr>formData := (formData w)(name \<mapsto> v)\<rparr>
      in if truthy (error w) then w1\<lparr>error := None\<rparr> else w1)"

text \<open>Lines 42-57: \<open>handleLogin\<close> up to the \<open>await\<close>. (\<open>e.preventDefault()\<close> stops the
  browser's own form submission and does not touch the state of the page.)\<close>

definition handleLogin_begin :: "World \<Rightarrow> World" where
  "handleLogin_begin w =
     (if \<not> mounted w \<or> apiClient w = None then
        w\<lparr>error := Some ''Application is still loading. Please try again.''\<rparr>
      else
        w\<lparr>loading := True, error := None,
          logins_pending := Suc (logins_pending w),
          login_calls := login_calls w @
            [\<lparr>cred_email = formData w ''email'', cred_password = formData w ''password''\<rparr>]\<rparr>)"

text \<open>Lines 58-69: \<open>handleLogin\<close> from the \<open>await\<close> on, given what the call yielded;
  the promise it waited for is no longer outstanding. In the \<open>catch\<close> clause
  \<open>error.message\<close> (line 66) is read before \<open>setError\<close> is called: on a rejection with
  \<open>null\<close> or \<open>undefined\<close> the read throws, \<open>setError\<close> is not reached, and the
  exception leaves the handler after the \<open>finally\<close> clause has run.\<close>

definition handleLogin_settled :: "login_outcome \<Rightarrow> World \<Rightarrow> World" where
  "handleLogin_settled out w =
     (let w1 =
        (case out of
           Resolved r \<Rightarrow>
             if success r then w\<lparr>router_calls := router_calls w @ [Replace ''/dashboard'']\<rparr>
             else w\<lparr>error := Some (or_else (message r) ''Login failed. Please check your credentials.'')\<rparr>
         | Rejected rej \<Rightarrow>
             (case rej of
                Nullish \<Rightarrow> w\<lparr>uncaught := uncaught w @ [TypeError]\<rparr>
              | ErrorValue msg \<Rightarrow>
                  w\<lparr>error := Some (or_else msg ''Network error. Please try again.'')\<rparr>))
      in w1\<lparr>loading := False, logins_pending := logins_pending w - 1\<rparr>)"

text \<open>One whole run of \<open>handleLogin\<close>, with nothing else happening during the \<open>await\<close>.\<close>

definition handleLogin :: "login_outcome \<Rightarrow> World \<Rightarrow> World" where
  "handleLogin out w =
     (if \<not> mounted w \<or> apiClient w = None then handleLogin_begin w
      else handleLogin_settled out (handleLogin_begin w))"

text \<open>Lines 72-187: what the component returns.\<close>

record FormView =
  error_alert :: "string option"
  email_value :: "string option"
  password_value :: "string option"
  inputs_disabled :: bool
  submit_disabled :: bool
  submit_label :: string

datatype View = Placeholder | Interactive FormView

definition render :: "World \<Rightarrow> View" where
  "render w =
     (if \<not> mounted w then Placeholder
      else Interactive
        \<lparr>error_alert = (if truthy (error w) then error w else None),
         email_value = formData w ''email'',
         password_value = formData w ''password'',
         inputs_disabled = loading w,
         submit_disabled = (loading w \<or> \<not> mounted w),
         submit_label = (if loading w then ''Signing in...'' else ''Sign In'')\<rparr>)"

subsection \<open>The events of a component instance\<close>

datatype event =
    Attach
  | ImportResolved Module
  | ImportRejected
  | InputChange string string
  | Submit
  | LoginSettled login_outcome

fun step :: "event \<Rightarrow> World \<Rightarrow> World" where
  "step Attach w = useEffect_mount w"
| "step (ImportResolved m) w =
     (if imports_pending w = 0 then w
      else import_then m (w\<lparr>imports_pending := imports_pending w - 1\<rparr>))"
| "step ImportRejected w =
     (if imports_pending w = 0 then w else w\<lparr>imports_pending := imports_pending w - 1\<rparr>)"
| "step (InputChange name v) w = handleInputChange name v w"
| "step Submit w = handleLogin_begin w"
| "step (LoginSettled out) w =
     (if logins_pending w = 0 then w else handleLogin_settled out w)"

fun run :: "event list \<Rightarrow> World \<Rightarrow> World" where
  "run [] w = w"
| "run (e # es) w = run es (step e w)"

text \<open>The values of \<open>mounted\<close> along a run, and the changes of value in such a list.\<close>

fun mounted_trace :: "event list \<Rightarrow> World \<Rightarrow> bool list" where
  "mounted_trace [] w = [mounted w]"
| "mounted_trace (e # es) w = mounted w # mounted_trace es (step e w)"

fun rising :: "bool list \<Rightarrow> nat" where
  "rising (a # b # bs) = (if \<not> a \<and> b then 1 else 0) + rising (b # bs)"
| "rising bs = 0"

fun falling :: "bool list \<Rightarrow> nat" where
  "falling (a # b # bs) = (if a \<and> \<not> b then 1 else 0) + falling (b # bs)"
| "falling bs = 0"

fun is_ImportResolved :: "event \<Rightarrow> bool" where
  "is_ImportResolved (ImportResolved m) = True"
| "is_ImportResolved e = False"

subsection \<open>The submission state machine of the specification\<close>

text \<open>
  Section 4.3 of the specification names four states. The page has no variable for them;
  they are read off its state: a submission is in flight exactly while \<open>loading\<close> is set
  (line 50, line 68); it has succeeded when the page is no longer loading and the last
  router call replaced the view by the dashboard; it has failed when the page is no
  longer loading and shows an error; the page is idle when nothing is in flight.
\<close>

datatype Submission = Idle | Submitting | Success | Failed

fun in_phase :: "Submission \<Rightarrow> World \<Rightarrow> bool" where
  "in_phase Idle w = (\<not> loading w \<and> logins_pending w = 0)"
| "in_phase Submitting w = loading w"
| "in_phase Success w =
     (\<not> loading w \<and> router_calls w \<noteq> [] \<and> last (router_calls w) = Replace ''/dashboard'')"
| "in_phase Failed w = (\<not> loading w \<and> truthy (error w))"

text \<open>
  The navigation contract of section 6 (the router is the framework's): the history is
  a stack of views, current view first; \<open>replace\<close> overwrites the current entry and
  \<open>push\<close> adds one.
\<close>

fun navigate :: "router_call \<Rightarrow> string list \<Rightarrow> string list" where
  "navigate (Replace p) [] = [p]"
| "navigate (Replace p) (cur # older) = p # older"
| "navigate (Push p) h = p # h"

section \<open>Properties of the lazy initializer\<close>

lemma initializeToken_initialized:
  "isInitialized (obj rt) \<Longrightarrow> initializeToken env rt = (Inr (), rt)"
  by (simp add: initializeToken_def)

lemma initializeToken_returned_sets_flag:
  "fst (initializeToken env rt) = Inr () \<Longrightarrow> isInitialized (obj (snd (initializeToken env rt)))"
  by (cases "localStorage env"; cases "isInitialized (obj rt)"; cases "window_defined env")
    (simp_all add: initializeToken_def set_isInitialized_def set_token_def
      localStorage_getItem_def split: storage_read.splits)

text \<open>
  The reads made so far, plus one while the flag is unset, never grow: a call either
  changes nothing (flag set, or the accessor throws), or sets the flag after at most
  one read.
\<close>

lemma initializeToken_potential:
  "getItem_calls (snd (initializeToken env rt))
     + (if isInitialized (obj (snd (initializeToken env rt))) then 0 else 1)
   \<le> getItem_calls rt + (if isInitialized (obj rt) then 0 else 1)"
  by (cases "localStorage env"; cases "isInitialized (obj rt)"; cases "window_defined env")
    (simp_all add: initializeToken_def set_isInitialized_def set_token_def
      localStorage_getItem_def split: storage_read.splits)

lemma initializeToken_calls_potential:
  "getItem_calls (initializeToken_calls envs rt)
     + (if isInitialized (obj (initializeToken_calls envs rt)) then 0 else 1)
   \<le> getItem_calls rt + (if isInitialized (obj rt) then 0 else 1)"
proof (induction envs arbitrary: rt)
  case Nil
  then show ?case by simp
next
  case (Cons env envs)
  have "getItem_calls (initializeToken_calls (env # envs) rt)
      + (if isInitialized (obj (initializeToken_calls (env # envs) rt)) then 0 else 1)
    \<le> getItem_calls (snd (initializeToken env rt))
      + (if isInitialized (obj (snd (initializeToken env rt))) then 0 else 1)"
    using Cons.IH [of "snd (initializeToken env rt)"] by simp
  also have "\<dots> \<le> getItem_calls rt + (if isInitialized (obj rt) then 0 else 1)"
    by (rule initializeToken_potential)
  finally show ?case .
qed

lemma initializeToken_calls_initialized:
  "isInitialized (obj rt) \<Longrightarrow> initializeToken_calls envs rt = rt"
  by (induction envs) (simp_all add: initializeToken_initialized)

lemma initializeToken_calls_reads:
  "getItem_calls (initializeToken_calls envs rt) \<le> Suc (getItem_calls rt)"
proof -
  have "getItem_calls (initializeToken_calls envs rt)
      \<le> getItem_calls (initializeToken_calls envs rt)
        + (if isInitialized (obj (initializeToken_calls envs rt)) then 0 else 1)"
    by simp
  also have "\<dots> \<le> getItem_calls rt + (if isInitialized (obj rt) then 0 else 1)"
    by (rule initializeToken_calls_potential)
  also have "\<dots> \<le> Suc (getItem_calls rt)" by simp
  finally show ?thesis .
qed

text \<open>
  C2. \<open>ensureInitialized()\<close> (the method \<open>initializeToken\<close>) is idempotent. However many
  times it is called in sequence, and whatever environment each call finds (also one
  whose storage accessor throws), the calls together read the storage at most once; a
  call, or any sequence of calls, on an object whose flag is already set returns at once
  and changes nothing; and after a call that has returned, a second call changes nothing.
\<close>

theorem ensureInitialized_idempotent:
  "getItem_calls (initializeToken_calls envs rt) \<le> getItem_calls rt + 1
   \<and> (isInitialized (obj rt) \<longrightarrow> initializeToken env rt = (Inr (), rt))
   \<and> (isInitialized (obj rt) \<longrightarrow> initializeToken_calls envs rt = rt)
   \<and> (fst (initializeToken env1 rt) = Inr () \<longrightarrow>
        initializeToken env2 (snd (initializeToken env1 rt)) = (Inr (), snd (initializeToken env1 rt)))"
  using initializeToken_calls_reads [of envs rt]
  by (simp add: initializeToken_initialized initializeToken_returned_sets_flag
      initializeToken_calls_initialized)

theorem ensureInitialized_idempotent_witness:
  "isInitialized (obj (\<lparr>obj = \<lparr>baseURL = ''/api'', token = Some ''tok'', isInitialized = True\<rparr>,
       getItem_calls = 1\<rparr>))
   \<and> initializeToken \<lparr>window_defined = True, localStorage = GlobalObject (Returns (Some ''other''))\<rparr>
        \<lparr>obj = \<lparr>baseURL = ''/api'', token = Some ''tok'', isInitialized = True\<rparr>, getItem_calls = 1\<rparr>
      = (Inr (), \<lparr>obj = \<lparr>baseURL = ''/api'', token = Some ''tok'', isInitialized = True\<rparr>,
           getItem_calls = 1\<rparr>)
   \<and> fst (initializeToken \<lparr>window_defined = True, localStorage = GlobalObject (Returns (Some ''tok''))\<rparr>
        (ApiClient_new ''/api'')) = Inr ()
   \<and> initializeToken_calls
        [\<lparr>window_defined = True, localStorage = GlobalThrows\<rparr>,
         \<lparr>window_defined = True, localStorage = GlobalObject (Returns (Some ''tok''))\<rparr>,
         \<lparr>window_defined = True, localStorage = GlobalObject (Returns (Some ''other''))\<rparr>]
        (ApiClient_new ''/api'')
      = \<lparr>obj = \<lparr>baseURL = ''/api'', token = Some ''tok'', isInitialized = True\<rparr>, getItem_calls = 1\<rparr>"
  using ensureInitialized_idempotent [of "[]"
      "\<lparr>obj = \<lparr>baseURL = ''/api'', token = Some ''tok'', isInitialized = True\<rparr>, getItem_calls = 1\<rparr>"
      "\<lparr>window_defined = True, localStorage = GlobalObject (Returns (Some ''other''))\<rparr>"]
    ensureInitialized_idempotent [of
      "[\<lparr>window_defined = True, localStorage = GlobalThrows\<rparr>,
        \<lparr>window_defined = True, localStorage = GlobalObject (Returns (Some ''tok''))\<rparr>,
        \<lparr>window_defined = True, localStorage = GlobalObject (Returns (Some ''other''))\<rparr>]"
      "ApiClient_new ''/api''" _
      "\<lparr>window_defined = True, localStorage = GlobalObject (Returns (Some ''tok''))\<rparr>"]
  by (simp add: initializeToken_def localStorage_getItem_def set_isInitialized_def set_token_def
      ApiClient_new_def)


lemma initializeToken_throws:
  "window_defined env \<Longrightarrow> localStorage env = GlobalObject Throws \<Longrightarrow> \<not> isInitialized (obj rt) \<Longrightarrow>
   initializeToken env rt =
     (Inr (), \<lparr>obj = (obj rt)\<lparr>token := None, isInitialized := True\<rparr>,
               getItem_calls = Suc (getItem_calls rt)\<rparr>)"
  by (simp add: initializeToken_def localStorage_getItem_def set_token_def
      set_isInitialized_def)

lemma initializeToken_blocked:
  "window_defined env \<Longrightarrow> localStorage env = GlobalThrows \<Longrightarrow> \<not> isInitialized (obj rt) \<Longrightarrow>
   initializeToken env rt = (Inl SecurityError, rt)"
  by (simp add: initializeToken_def)

lemma initializeToken_returns_unless_blocked:
  "isInitialized (obj rt) \<or> \<not> window_defined env \<or> localStorage env \<noteq> GlobalThrows \<Longrightarrow>
   fst (initializeToken env rt) = Inr ()"
  by (cases "localStorage env")
    (auto simp add: initializeToken_def localStorage_getItem_def split: storage_read.splits)


lemma getToken_returns_unless_blocked:
  assumes "isInitialized (obj rt) \<or> \<not> window_defined env \<or> localStorage env \<noteq> GlobalThrows"
  shows "\<exists>v. fst (getToken env rt) = Inr v"
proof -
  obtain r rt' where eq: "initializeToken env rt = (r, rt')" by (cases "initializeToken env rt")
  with initializeToken_returns_unless_blocked [OF assms] have "r = Inr ()" by simp
  with eq show ?thesis by (simp add: getToken_def)
qed

lemma getToken_read_failure_caught:
  "window_defined env \<Longrightarrow> localStorage env = GlobalObject Throws \<Longrightarrow> \<not> isInitialized (obj rt) \<Longrightarrow>
   getToken env rt =
     (Inr None, \<lparr>obj = (obj rt)\<lparr>token := None, isInitialized := True\<rparr>,
                 getItem_calls = Suc (getItem_calls rt)\<rparr>)"
  by (simp add: getToken_def initializeToken_throws)




text \<open>
  C4. \<open>getToken()\<close> is to raise nothing whatever the storage capability does. The code
  does not achieve it: in a browser whose storage is blocked the accessor
  \<open>localStorage\<close> throws, the test \<open>typeof localStorage\<close> of line 56 stands before the
  \<open>try\<close> of line 57, and the \<open>SecurityError\<close> leaves \<open>initializeToken\<close> and with it
  \<open>getToken()\<close>; the flag stays unset and the state is as before, so that the next call
  fails in the same way.
\<close>

theorem getToken_throws_when_storage_blocked:
  "initializeToken \<lparr>window_defined = True, localStorage = GlobalThrows\<rparr> (ApiClient_new ''/api'')
     = (Inl SecurityError, ApiClient_new ''/api'')
   \<and> getToken \<lparr>window_defined = True, localStorage = GlobalThrows\<rparr> (ApiClient_new ''/api'')
     = (Inl SecurityError, ApiClient_new ''/api'')
   \<and> isInitialized (obj (snd (getToken \<lparr>window_defined = True, localStorage = GlobalThrows\<rparr>
        (ApiClient_new ''/api'')))) = False
   \<and> fst (getToken \<lparr>window_defined = True, localStorage = GlobalThrows\<rparr>
        (snd (getToken \<lparr>window_defined = True, localStorage = GlobalThrows\<rparr> (ApiClient_new ''/api''))))
     = Inl SecurityError"
  by (simp add: initializeToken_def getToken_def ApiClient_new_def)

subsection \<open>The earlier revision of the initializer\<close>

text \<open>
  The revision quoted in \<^verbatim>\<open>HYDRATION_FIXES.md\<close> behaves differently where the later one
  was changed: without \<open>window\<close> it leaves the flag unset, so that a later call tries
  again; and a read that raises leaves the method, with the flag unset, so that every
  further call reads again.
\<close>

lemma initializeToken_v1_no_window:
  "\<not> window_defined env \<Longrightarrow> initializeToken_v1 env rt = (Inr (), rt)"
  by (simp add: initializeToken_v1_def)

lemma initializeToken_v1_throws:
  "window_defined env \<Longrightarrow> localStorage env = GlobalObject Throws \<Longrightarrow> \<not> isInitialized (obj rt) \<Longrightarrow>
   initializeToken_v1 env rt = (Inl StorageError, rt\<lparr>getItem_calls := Suc (getItem_calls rt)\<rparr>)"
  by (simp add: initializeToken_v1_def localStorage_getItem_def)

lemma initializeToken_v1_rereads:
  "getItem_calls (initializeToken_v1_calls
      [\<lparr>window_defined = True, localStorage = GlobalObject Throws\<rparr>,
       \<lparr>window_defined = True, localStorage = GlobalObject Throws\<rparr>] (ApiClient_new ''/api'')) = 2"
  by (simp add: initializeToken_v1_def localStorage_getItem_def ApiClient_new_def)

lemma initializeToken_v1_reads_once:
  "localStorage env = GlobalObject (Returns v) \<Longrightarrow>
   getItem_calls (snd (initializeToken_v1 env (snd (initializeToken_v1 env rt))))
     \<le> Suc (getItem_calls rt)"
  by (simp add: initializeToken_v1_def localStorage_getItem_def set_isInitialized_def
      set_token_def)

section \<open>Properties of the login page\<close>

lemma step_mounted: "mounted w \<Longrightarrow> mounted (step e w)"
  by (cases e)
    (simp_all add: useEffect_mount_def import_then_def handleInputChange_def Let_def
      handleLogin_begin_def handleLogin_settled_def split: login_outcome.split rejection.split)

lemma run_mounted: "mounted w \<Longrightarrow> mounted (run evs w)"
  by (induction evs arbitrary: w) (simp_all add: step_mounted)

lemma step_unmounted:
  "\<not> is_ImportResolved e \<Longrightarrow> mounted (step e w) = mounted w"
  by (cases e)
    (simp_all add: useEffect_mount_def handleInputChange_def Let_def
      handleLogin_begin_def handleLogin_settled_def split: login_outcome.split rejection.split)

lemma run_unmounted:
  "\<forall>e \<in> set evs. \<not> is_ImportResolved e \<Longrightarrow> mounted (run evs w) = mounted w"
  by (induction evs arbitrary: w) (simp_all add: step_unmounted)

lemma render_Placeholder_iff: "render w = Placeholder \<longleftrightarrow> \<not> mounted w"
  by (simp add: render_def)

text \<open>
  C1. While \<open>mounted\<close> is false \<open>render\<close> returns the placeholder, and once it is true
  \<open>render\<close> returns the interactive form. Along the life of an instance: as long as no
  import continuation has run (whatever else has happened), the page renders the
  placeholder; after a continuation has run, it never renders the placeholder again.
\<close>

theorem render_mount_guard:
  "(\<not> mounted w \<longrightarrow> render w = Placeholder)
   \<and> (mounted w \<longrightarrow>
        render w = Interactive
          \<lparr>error_alert = (if truthy (error w) then error w else None),
           email_value = formData w ''email'', password_value = formData w ''password'',
           inputs_disabled = loading w, submit_disabled = loading w,
           submit_label = (if loading w then ''Signing in...'' else ''Sign In'')\<rparr>)
   \<and> ((\<forall>e \<in> set evs. \<not> is_ImportResolved e) \<longrightarrow> render (run evs (LoginPage_init a)) = Placeholder)
   \<and> (imports_pending w \<noteq> 0 \<longrightarrow> render (run evs (step (ImportResolved m) w)) \<noteq> Placeholder)"
proof -
  have a: "(\<forall>e \<in> set evs. \<not> is_ImportResolved e) \<longrightarrow> render (run evs (LoginPage_init a)) = Placeholder"
    by (simp add: render_Placeholder_iff run_unmounted) (simp add: LoginPage_init_def)
  have b: "imports_pending w \<noteq> 0 \<longrightarrow> render (run evs (step (ImportResolved m) w)) \<noteq> Placeholder"
    by (simp add: render_Placeholder_iff run_mounted import_then_def)
  show ?thesis using a b by (simp add: render_def)
qed

theorem render_mount_guard_witness:
  "\<not> mounted (LoginPage_init None)
   \<and> render (LoginPage_init None) = Placeholder
   \<and> render (run [Attach, InputChange ''email'' ''a@b.com'', Submit] (LoginPage_init None)) = Placeholder
   \<and> mounted (run [Attach, ImportResolved \<lparr>default_export = obj (ApiClient_new ''/api'')\<rparr>] (LoginPage_init None))
   \<and> render (run [Attach, ImportResolved \<lparr>default_export = obj (ApiClient_new ''/api'')\<rparr>] (LoginPage_init None))
       = Interactive \<lparr>error_alert = None, email_value = Some '''', password_value = Some '''',
           inputs_disabled = False, submit_disabled = False, submit_label = ''Sign In''\<rparr>"
  using render_mount_guard [of "LoginPage_init None" "[Attach, InputChange ''email'' ''a@b.com'', Submit]" None
      "\<lparr>default_export = obj (ApiClient_new ''/api'')\<rparr>"]
    render_mount_guard [of "run [Attach, ImportResolved \<lparr>default_export = obj (ApiClient_new ''/api'')\<rparr>] (LoginPage_init None)"
      "[]" None "\<lparr>default_export = obj (ApiClient_new ''/api'')\<rparr>"]
  by (simp add: LoginPage_init_def useEffect_mount_def import_then_def)

text \<open>
  C5. A submission while \<open>mounted\<close> is false or the module variable \<open>apiClient\<close> is still
  \<open>null\<close> only sets the inline error to the "still loading" message: whatever the remote
  call would have yielded, no call of \<open>login\<close> is made, nothing is awaited, the router is
  not called, \<open>loading\<close> keeps its value, and the page is idle (or submitting) after the
  event exactly if it was before.
\<close>

theorem handleLogin_not_ready:
  assumes "\<not> mounted w \<or> apiClient w = None"
  shows "handleLogin_begin w = w\<lparr>error := Some ''Application is still loading. Please try again.''\<rparr>
         \<and> handleLogin out w = handleLogin_begin w
         \<and> step Submit w = handleLogin_begin w
         \<and> error (handleLogin_begin w) = Some ''Application is still loading. Please try again.''
         \<and> login_calls (handleLogin_begin w) = login_calls w
         \<and> logins_pending (handleLogin_begin w) = logins_pending w
         \<and> router_calls (handleLogin_begin w) = router_calls w
         \<and> loading (handleLogin_begin w) = loading w
         \<and> in_phase Idle (handleLogin_begin w) = in_phase Idle w
         \<and> in_phase Submitting (handleLogin_begin w) = in_phase Submitting w"
  using assms by (auto simp add: handleLogin_begin_def handleLogin_def)

theorem handleLogin_not_ready_witness:
  "\<not> mounted (LoginPage_init None)
   \<and> in_phase Idle (LoginPage_init None)
   \<and> handleLogin_begin (LoginPage_init None)
       = (LoginPage_init None)\<lparr>error := Some ''Application is still loading. Please try again.''\<rparr>
   \<and> login_calls (handleLogin_begin (LoginPage_init None)) = []
   \<and> in_phase Idle (handleLogin_begin (LoginPage_init None))
   \<and> \<not> in_phase Submitting (handleLogin_begin (LoginPage_init None))"
  using handleLogin_not_ready [of "LoginPage_init None" "Rejected Nullish"]
  by (simp add: LoginPage_init_def)

text \<open>
  C6. A submission on a ready page (mounted, module loaded) enters Submitting with one
  call of \<open>login\<close> on the e-mail and password of the form and no router call. When the
  call of a submitting page resolves with \<open>success\<close> true, the page is in Success and no
  longer Submitting, exactly one router call has been added, \<open>replace\<close> of the dashboard
  route, and the inline error is as it was; by the navigation contract that call
  overwrites the current history entry, so none is left for the login view.
\<close>

theorem handleLogin_success:
  "(mounted w \<and> apiClient w \<noteq> None \<longrightarrow>
      in_phase Submitting (handleLogin_begin w)
      \<and> login_calls (handleLogin_begin w) = login_calls w @
           [\<lparr>cred_email = formData w ''email'', cred_password = formData w ''password''\<rparr>]
      \<and> router_calls (handleLogin_begin w) = router_calls w
      \<and> handleLogin out w = handleLogin_settled out (handleLogin_begin w))
   \<and> (success r \<and> in_phase Submitting w' \<longrightarrow>
        in_phase Success (handleLogin_settled (Resolved r) w')
        \<and> \<not> in_phase Submitting (handleLogin_settled (Resolved r) w')
        \<and> router_calls (handleLogin_settled (Resolved r) w') = router_calls w' @ [Replace ''/dashboard'']
        \<and> error (handleLogin_settled (Resolved r) w') = error w'
        \<and> navigate (last (router_calls (handleLogin_settled (Resolved r) w'))) (cur # older)
            = ''/dashboard'' # older)"
  by (simp add: handleLogin_begin_def handleLogin_settled_def handleLogin_def)

theorem handleLogin_success_witness:
  "mounted (import_then \<lparr>default_export = obj (ApiClient_new ''/api'')\<rparr> (LoginPage_init None))
   \<and> success \<lparr>success = True, message = None\<rparr>
   \<and> in_phase Submitting (handleLogin_begin
        (handleInputChange ''password'' ''password1'' (handleInputChange ''email'' ''a@b.com''
          (import_then \<lparr>default_export = obj (ApiClient_new ''/api'')\<rparr> (LoginPage_init None)))))
   \<and> login_calls (handleLogin_begin
        (handleInputChange ''password'' ''password1'' (handleInputChange ''email'' ''a@b.com''
          (import_then \<lparr>default_export = obj (ApiClient_new ''/api'')\<rparr> (LoginPage_init None)))))
       = [\<lparr>cred_email = Some ''a@b.com'', cred_password = Some ''password1''\<rparr>]
   \<and> in_phase Success (handleLogin (Resolved \<lparr>success = True, message = None\<rparr>)
        (handleInputChange ''password'' ''password1'' (handleInputChange ''email'' ''a@b.com''
          (import_then \<lparr>default_export = obj (ApiClient_new ''/api'')\<rparr> (LoginPage_init None)))))
   \<and> router_calls (handleLogin (Resolved \<lparr>success = True, message = None\<rparr>)
        (handleInputChange ''password'' ''password1'' (handleInputChange ''email'' ''a@b.com''
          (import_then \<lparr>default_export = obj (ApiClient_new ''/api'')\<rparr> (LoginPage_init None)))))
       = [Replace ''/dashboard'']"
  using handleLogin_success [of
      "handleInputChange ''password'' ''password1'' (handleInputChange ''email'' ''a@b.com''
          (import_then \<lparr>default_export = obj (ApiClient_new ''/api'')\<rparr> (LoginPage_init None)))"
      "Resolved \<lparr>success = True, message = None\<rparr>"
      "\<lparr>success = True, message = None\<rparr>"
      "handleLogin_begin (handleInputChange ''password'' ''password1'' (handleInputChange ''email'' ''a@b.com''
          (import_then \<lparr>default_export = obj (ApiClient_new ''/api'')\<rparr> (LoginPage_init None))))"]
  by (simp add: LoginPage_init_def import_then_def handleInputChange_def handleLogin_begin_def)

text \<open>
  C7 as it is stated fails where the message of a failure response is the empty string:
  \<open>response.message || "..."\<close> (line 63) takes an empty message for a missing one, and
  the inline error is the fallback text of that line, not the message.
\<close>

theorem handleLogin_failure_message_counterexample:
  "in_phase Submitting (handleLogin_begin
       (import_then \<lparr>default_export = obj (ApiClient_new ''/api'')\<rparr> (LoginPage_init None)))
   \<and> message \<lparr>success = False, message = Some ''''\<rparr> = Some ''''
   \<and> error (handleLogin_settled (Resolved \<lparr>success = False, message = Some ''''\<rparr>)
        (handleLogin_begin
          (import_then \<lparr>default_export = obj (ApiClient_new ''/api'')\<rparr> (LoginPage_init None))))
       = Some ''Login failed. Please check your credentials.''
   \<and> error (handleLogin_settled (Resolved \<lparr>success = False, message = Some ''''\<rparr>)
        (handleLogin_begin
          (import_then \<lparr>default_export = obj (ApiClient_new ''/api'')\<rparr> (LoginPage_init None))))
       \<noteq> Some ''''"
  by (simp add: LoginPage_init_def import_then_def handleLogin_begin_def handleLogin_settled_def)

text \<open>
  C7 (as amended). When the call of a submitting page resolves with \<open>success\<close> false and
  a non-empty message, the page is in Failed, the inline error is that message exactly
  (\<open>Invalid credentials\<close> for that message) and the router is not called; when the call
  rejects with a value other than \<open>null\<close> or \<open>undefined\<close> that carries no message (none,
  or an empty one), the page is in Failed and the inline error is the one fallback
  \<open>Network error. Please try again.\<close>; every failure response and every rejection with
  such a value ends in Failed, and after every outcome the page is no longer submitting.
\<close>

theorem handleLogin_failure:
  assumes "in_phase Submitting w"
  shows "(\<not> success r \<and> message r = Some m \<and> m \<noteq> [] \<longrightarrow>
            in_phase Failed (handleLogin_settled (Resolved r) w)
            \<and> error (handleLogin_settled (Resolved r) w) = Some m
            \<and> router_calls (handleLogin_settled (Resolved r) w) = router_calls w)
         \<and> (\<not> success r \<and> message r = Some ''Invalid credentials'' \<longrightarrow>
            error (handleLogin_settled (Resolved r) w) = Some ''Invalid credentials'')
         \<and> (\<not> success r \<longrightarrow> in_phase Failed (handleLogin_settled (Resolved r) w))
         \<and> in_phase Failed (handleLogin_settled (Rejected (ErrorValue None)) w)
         \<and> error (handleLogin_settled (Rejected (ErrorValue None)) w)
             = Some ''Network error. Please try again.''
         \<and> error (handleLogin_settled (Rejected (ErrorValue (Some []))) w)
             = Some ''Network error. Please try again.''
         \<and> in_phase Failed (handleLogin_settled (Rejected (ErrorValue msg)) w)
         \<and> router_calls (handleLogin_settled (Rejected e) w) = router_calls w
         \<and> \<not> in_phase Submitting (handleLogin_settled (Resolved r) w)
         \<and> \<not> in_phase Submitting (handleLogin_settled (Rejected e) w)"
  by (cases e; cases msg; cases "message r") (simp_all add: handleLogin_settled_def)

theorem handleLogin_failure_witness:
  "in_phase Submitting (handleLogin_begin
       (import_then \<lparr>default_export = obj (ApiClient_new ''/api'')\<rparr> (LoginPage_init None)))
   \<and> \<not> success \<lparr>success = False, message = Some ''Invalid credentials''\<rparr>
   \<and> ''Invalid credentials'' \<noteq> []
   \<and> in_phase Failed (handleLogin_settled (Resolved \<lparr>success = False, message = Some ''Invalid credentials''\<rparr>)
        (handleLogin_begin
          (import_then \<lparr>default_export = obj (ApiClient_new ''/api'')\<rparr> (LoginPage_init None))))
   \<and> error (handleLogin_settled (Resolved \<lparr>success = False, message = Some ''Invalid credentials''\<rparr>)
        (handleLogin_begin
          (import_then \<lparr>default_export = obj (ApiClient_new ''/api'')\<rparr> (LoginPage_init None))))
       = Some ''Invalid credentials''
   \<and> error (handleLogin_settled (Rejected (ErrorValue None))
        (handleLogin_begin
          (import_then \<lparr>default_export = obj (ApiClient_new ''/api'')\<rparr> (LoginPage_init None))))
       = Some ''Network error. Please try again.''"
  using handleLogin_failure [of
      "handleLogin_begin (import_then \<lparr>default_export = obj (ApiClient_new ''/api'')\<rparr> (LoginPage_init None))"
      "\<lparr>success = False, message = Some ''Invalid credentials''\<rparr>" "''Invalid credentials''" None
      "ErrorValue None"]
  by (simp add: LoginPage_init_def import_then_def handleLogin_begin_def)

text \<open>
  A rejection with \<open>null\<close> or \<open>undefined\<close> is outside that statement: reading
  \<open>error.message\<close> in the \<open>catch\<close> clause throws, the inline error keeps its value
  (\<open>null\<close> since the submission began), and a \<open>TypeError\<close> leaves the handler once the
  \<open>finally\<close> clause has cleared \<open>loading\<close>.
\<close>

lemma handleLogin_settled_rejected_nullish:
  "handleLogin_settled (Rejected Nullish) w
     = w\<lparr>uncaught := uncaught w @ [TypeError], loading := False,
         logins_pending := logins_pending w - 1\<rparr>"
  by (simp add: handleLogin_settled_def)

lemma handleLogin_rejected_nullish_not_Failed:
  "mounted w \<Longrightarrow> apiClient w \<noteq> None \<Longrightarrow>
   error (handleLogin (Rejected Nullish) w) = None
   \<and> \<not> in_phase Failed (handleLogin (Rejected Nullish) w)
   \<and> uncaught (handleLogin (Rejected Nullish) w) = uncaught w @ [TypeError]"
  by (simp add: handleLogin_def handleLogin_begin_def handleLogin_settled_def)

lemma mounted_trace_shape: "\<exists>bs. mounted_trace evs w = mounted w # bs"
  by (cases evs) simp_all

lemma falling_mounted_trace: "falling (mounted_trace evs w) = 0"
proof (induction evs arbitrary: w)
  case Nil
  then show ?case by simp
next
  case (Cons e es)
  obtain bs where bs: "mounted_trace es (step e w) = mounted (step e w) # bs"
    using mounted_trace_shape by blast
  from Cons.IH [of "step e w"] bs have "falling (mounted (step e w) # bs) = 0" by simp
  with bs show ?case by (simp add: step_mounted)
qed

lemma rising_mounted_trace:
  "rising (mounted_trace evs w) = (if \<not> mounted w \<and> mounted (run evs w) then 1 else 0)"
proof (induction evs arbitrary: w)
  case Nil
  then show ?case by simp
next
  case (Cons e es)
  obtain bs where bs: "mounted_trace es (step e w) = mounted (step e w) # bs"
    using mounted_trace_shape by blast
  from Cons.IH [of "step e w"] bs
  have ih: "rising (mounted (step e w) # bs)
      = (if \<not> mounted (step e w) \<and> mounted (run es (step e w)) then 1 else 0)"
    by simp
  show ?case
  proof (cases "mounted (step e w)")
    case True
    then have "mounted (run es (step e w))" by (rule run_mounted)
    with True bs ih show ?thesis by simp
  next
    case False
    then have "\<not> mounted w" using step_mounted by blast
    with False bs ih show ?thesis by simp
  qed
qed

text \<open>
  C8. \<open>mounted\<close> is a one-shot flag. A new instance has it false. Along every sequence
  of events (attachments, also repeated ones, import continuations, input changes,
  submissions, settled calls) it never goes from true to false and goes from false to
  true at most once, and exactly once when the instance ends up mounted; in a mounted
  instance no event changes it; and the continuation of an outstanding import sets it.
\<close>

theorem mounted_one_shot:
  "\<not> mounted (LoginPage_init a)
   \<and> hd (mounted_trace evs (LoginPage_init a)) = False
   \<and> falling (mounted_trace evs (LoginPage_init a)) = 0
   \<and> rising (mounted_trace evs (LoginPage_init a)) \<le> 1
   \<and> (mounted (run evs (LoginPage_init a)) \<longrightarrow> rising (mounted_trace evs (LoginPage_init a)) = 1)
   \<and> (mounted w \<longrightarrow> mounted (step e w) \<and> mounted (run evs w)
        \<and> rising (mounted_trace evs w) = 0 \<and> falling (mounted_trace evs w) = 0)
   \<and> (imports_pending w \<noteq> 0 \<longrightarrow> mounted (step (ImportResolved m) w))"
proof -
  have init: "\<not> mounted (LoginPage_init a)" by (simp add: LoginPage_init_def)
  have hd: "hd (mounted_trace evs (LoginPage_init a)) = False"
    using mounted_trace_shape [of evs "LoginPage_init a"] init by (cases evs) simp_all
  have res: "imports_pending w \<noteq> 0 \<longrightarrow> mounted (step (ImportResolved m) w)"
    by (simp add: import_then_def)
  show ?thesis
    using init hd res
    by (simp add: falling_mounted_trace rising_mounted_trace step_mounted run_mounted)
qed

theorem mounted_one_shot_witness:
  "mounted (run [Attach, Attach, ImportResolved \<lparr>default_export = obj (ApiClient_new ''/api'')\<rparr>,
        ImportResolved \<lparr>default_export = obj (ApiClient_new ''/api'')\<rparr>, Submit] (LoginPage_init None))
   \<and> mounted_trace [Attach, Attach, ImportResolved \<lparr>default_export = obj (ApiClient_new ''/api'')\<rparr>,
        ImportResolved \<lparr>default_export = obj (ApiClient_new ''/api'')\<rparr>, Submit] (LoginPage_init None)
       = [False, False, False, True, True, True]
   \<and> rising (mounted_trace [Attach, Attach, ImportResolved \<lparr>default_export = obj (ApiClient_new ''/api'')\<rparr>,
        ImportResolved \<lparr>default_export = obj (ApiClient_new ''/api'')\<rparr>, Submit] (LoginPage_init None)) = 1
   \<and> falling (mounted_trace [Attach, Attach, ImportResolved \<lparr>default_export = obj (ApiClient_new ''/api'')\<rparr>,
        ImportResolved \<lparr>default_export = obj (ApiClient_new ''/api'')\<rparr>, Submit] (LoginPage_init None)) = 0"
  using mounted_one_shot [of None
      "[Attach, Attach, ImportResolved \<lparr>default_export = obj (ApiClient_new ''/api'')\<rparr>,
        ImportResolved \<lparr>default_export = obj (ApiClient_new ''/api'')\<rparr>, Submit]"
      "LoginPage_init None" Attach "\<lparr>default_export = obj (ApiClient_new ''/api'')\<rparr>"]
  by (simp add: LoginPage_init_def useEffect_mount_def import_then_def handleLogin_begin_def)

lemma step_client_loaded:
  "(mounted w \<longrightarrow> apiClient w \<noteq> None) \<Longrightarrow> mounted (step e w) \<Longrightarrow> apiClient (step e w) \<noteq> None"
  by (cases e)
    (auto simp add: useEffect_mount_def import_then_def handleInputChange_def Let_def
      handleLogin_begin_def handleLogin_settled_def split: login_outcome.splits rejection.splits if_splits)

lemma run_client_loaded:
  "(mounted w \<longrightarrow> apiClient w \<noteq> None) \<Longrightarrow> mounted (run evs w) \<Longrightarrow> apiClient (run evs w) \<noteq> None"
proof (induction evs arbitrary: w)
  case Nil
  then show ?case by simp
next
  case (Cons e es)
  have "mounted (step e w) \<longrightarrow> apiClient (step e w) \<noteq> None"
    using step_client_loaded [OF Cons.prems(1)] by blast
  from Cons.IH [OF this] Cons.prems(2) show ?case by simp
qed

text \<open>
  C9. In every state that an instance reaches from its initial state, if \<open>mounted\<close> is
  true then the module variable \<open>apiClient\<close> is not \<open>null\<close> (line 27 assigns it before
  line 28 sets the flag, and nothing resets it). So a submission in a mounted state does
  not take the not-ready branch of lines 45-48: it clears the error, starts a call of
  \<open>login\<close> and is submitting.
\<close>

theorem mounted_implies_client_loaded:
  assumes "mounted (run evs (LoginPage_init a))"
  shows "apiClient (run evs (LoginPage_init a)) \<noteq> None
         \<and> handleLogin_begin (run evs (LoginPage_init a))
             \<noteq> (run evs (LoginPage_init a))\<lparr>error := Some ''Application is still loading. Please try again.''\<rparr>
         \<and> error (handleLogin_begin (run evs (LoginPage_init a))) = None
         \<and> in_phase Submitting (handleLogin_begin (run evs (LoginPage_init a)))
         \<and> length (login_calls (handleLogin_begin (run evs (LoginPage_init a))))
             = Suc (length (login_calls (run evs (LoginPage_init a))))"
proof -
  have "mounted (LoginPage_init a) \<longrightarrow> apiClient (LoginPage_init a) \<noteq> None"
    by (simp add: LoginPage_init_def)
  from run_client_loaded [OF this assms] have loaded: "apiClient (run evs (LoginPage_init a)) \<noteq> None" .
  have err: "error (handleLogin_begin (run evs (LoginPage_init a))) = None"
    using assms loaded by (auto simp add: handleLogin_begin_def)
  have neq: "handleLogin_begin (run evs (LoginPage_init a))
             \<noteq> (run evs (LoginPage_init a))\<lparr>error := Some ''Application is still loading. Please try again.''\<rparr>"
  proof
    assume "handleLogin_begin (run evs (LoginPage_init a))
             = (run evs (LoginPage_init a))\<lparr>error := Some ''Application is still loading. Please try again.''\<rparr>"
    then have "error (handleLogin_begin (run evs (LoginPage_init a)))
        = error ((run evs (LoginPage_init a))\<lparr>error := Some ''Application is still loading. Please try again.''\<rparr>)"
      by (rule arg_cong)
    with err show False by simp
  qed
  have sub: "in_phase Submitting (handleLogin_begin (run evs (LoginPage_init a)))"
    using assms loaded by (auto simp add: handleLogin_begin_def)
  have calls: "length (login_calls (handleLogin_begin (run evs (LoginPage_init a))))
             = Suc (length (login_calls (run evs (LoginPage_init a))))"
    using assms loaded by (auto simp add: handleLogin_begin_def)
  from loaded neq err sub calls show ?thesis by blast
qed

theorem mounted_implies_client_loaded_witness:
  "mounted (run [Attach, ImportResolved \<lparr>default_export = obj (ApiClient_new ''/api'')\<rparr>] (LoginPage_init None))
   \<and> apiClient (run [Attach, ImportResolved \<lparr>default_export = obj (ApiClient_new ''/api'')\<rparr>] (LoginPage_init None))
       = Some \<lparr>baseURL = ''/api'', token = None, isInitialized = False\<rparr>
   \<and> error (handleLogin_begin
        (run [Attach, ImportResolved \<lparr>default_export = obj (ApiClient_new ''/api'')\<rparr>] (LoginPage_init None))) = None"
  using mounted_implies_client_loaded [of "[Attach, ImportResolved \<lparr>default_export = obj (ApiClient_new ''/api'')\<rparr>]" None]
  by (simp add: LoginPage_init_def useEffect_mount_def import_then_def ApiClient_new_def)

text \<open>
  C10. An input change event for the field \<open>name\<close> stores the new value under that name
  and leaves every other field of the form as it was; it sets the inline error to
  \<open>null\<close> if one is displayed (a truthy \<open>error\<close>) and leaves it alone otherwise; and it
  changes nothing else of the page.
\<close>

theorem handleInputChange_frame:
  "formData (handleInputChange name v w) name = Some v
   \<and> (\<forall>k. k \<noteq> name \<longrightarrow> formData (handleInputChange name v w) k = formData w k)
   \<and> formData (handleInputChange name v w) = (formData w)(name \<mapsto> v)
   \<and> (truthy (error w) \<longrightarrow> error (handleInputChange name v w) = None)
   \<and> (\<not> truthy (error w) \<longrightarrow> error (handleInputChange name v w) = error w)
   \<and> handleInputChange name v w
       = w\<lparr>formData := (formData w)(name \<mapsto> v), error := (if truthy (error w) then None else error w)\<rparr>
   \<and> mounted (handleInputChange name v w) = mounted w
   \<and> loading (handleInputChange name v w) = loading w
   \<and> apiClient (handleInputChange name v w) = apiClient w
   \<and> login_calls (handleInputChange name v w) = login_calls w
   \<and> router_calls (handleInputChange name v w) = router_calls w"
  by (simp add: handleInputChange_def Let_def)

theorem handleInputChange_frame_witness:
  "truthy (error ((LoginPage_init None)\<lparr>error := Some ''Invalid credentials''\<rparr>))
   \<and> ''password'' \<noteq> ''email''
   \<and> formData (handleInputChange ''email'' ''a@b.com''
        ((LoginPage_init None)\<lparr>error := Some ''Invalid credentials''\<rparr>)) ''email'' = Some ''a@b.com''
   \<and> formData (handleInputChange ''email'' ''a@b.com''
        ((LoginPage_init None)\<lparr>error := Some ''Invalid credentials''\<rparr>)) ''password'' = Some ''''
   \<and> error (handleInputChange ''email'' ''a@b.com''
        ((LoginPage_init None)\<lparr>error := Some ''Invalid credentials''\<rparr>)) = None
   \<and> \<not> truthy (error (LoginPage_init None))
   \<and> error (handleInputChange ''email'' ''a@b.com'' (LoginPage_init None)) = None"
  using handleInputChange_frame [of "''email''" "''a@b.com''"
      "(LoginPage_init None)\<lparr>error := Some ''Invalid credentials''\<rparr>"]
    handleInputChange_frame [of "''email''" "''a@b.com''" "LoginPage_init None"]
  by (simp add: LoginPage_init_def)

end
